theory Spec2Isabelle
  imports Complex_Main "HOL-Library.Word" "HOL-Library.Mapping"
begin

unbundle bit_operations_syntax

section \<open>Machine types\<close>

type_synonym u8 = "8 word"
type_synonym u16 = "16 word"
type_synonym u32 = "32 word"
type_synonym u64 = "64 word"
type_synonym bytes = "u8 list"

section \<open>Container header (etca\_format)\<close>

text \<open>
  \<open>enum class CompressionMode : uint8_t { LOSSY = 0x00, LOSSLESS = 0x01 }\<close> and the
  cast \<open>static_cast<uint8_t>(compression_mode)\<close>.
\<close>

datatype CompressionMode = LOSSY | LOSSLESS

fun mode_byte :: "CompressionMode \<Rightarrow> u8" where
  "mode_byte LOSSY = 0x00"
| "mode_byte LOSSLESS = 0x01"

record EtcaHeader =
  format_version :: u8
  compression_mode :: CompressionMode
  width :: u32
  height :: u32
  color_depth :: u8
  metadata_size :: u32

definition MAGIC :: u32 where
  "MAGIC = 0x45544341"

definition VERSION :: u8 where
  "VERSION = 0x01"

definition COLOR_DEPTH_RGB24 :: u8 where
  "COLOR_DEPTH_RGB24 = 0x18"

definition HEADER_SIZE :: nat where
  "HEADER_SIZE = 20"

text \<open>
  \<open>(x >> k) & 0xFF\<close> on a \<open>uint32_t\<close>, stored into a \<open>uint8_t\<close> slot.
\<close>

definition byte_of_u32 :: "u32 \<Rightarrow> nat \<Rightarrow> u8" where
  "byte_of_u32 x k = ucast (drop_bit k x AND 0xFF)"

text \<open>
  \<open>EtcaHeader::serialize\<close>: a vector of \<open>HEADER_SIZE\<close> zero bytes whose slots are
  assigned one by one; every index is below 20.
\<close>

definition header_serialize :: "EtcaHeader \<Rightarrow> bytes" where
  "header_serialize h =
     (replicate HEADER_SIZE 0)
       [0 := byte_of_u32 MAGIC 24,
        1 := byte_of_u32 MAGIC 16,
        2 := byte_of_u32 MAGIC 8,
        3 := byte_of_u32 MAGIC 0,
        4 := format_version h,
        5 := mode_byte (compression_mode h),
        6 := byte_of_u32 (width h) 24,
        7 := byte_of_u32 (width h) 16,
        8 := byte_of_u32 (width h) 8,
        9 := byte_of_u32 (width h) 0,
        10 := byte_of_u32 (height h) 24,
        11 := byte_of_u32 (height h) 16,
        12 := byte_of_u32 (height h) 8,
        13 := byte_of_u32 (height h) 0,
        14 := color_depth h,
        15 := byte_of_u32 (metadata_size h) 24,
        16 := byte_of_u32 (metadata_size h) 16,
        17 := byte_of_u32 (metadata_size h) 8,
        18 := byte_of_u32 (metadata_size h) 0,
        19 := 0x00]"

section \<open>Results\<close>

text \<open>
  C9. Serializing the header with version 1, lossy mode, width 640, height 480, colour
  depth 0x18 and no metadata gives the twenty bytes
  45 54 43 41 01 00 00 00 02 80 00 00 01 E0 18 00 00 00 00 00.
\<close>

theorem C9_header_serialize_example:
  "header_serialize \<lparr>format_version = 1, compression_mode = LOSSY, width = 640,
      height = 480, color_depth = 0x18, metadata_size = 0\<rparr>
   = [0x45, 0x54, 0x43, 0x41, 0x01, 0x00, 0x00, 0x00, 0x02, 0x80,
      0x00, 0x00, 0x01, 0xE0, 0x18, 0x00, 0x00, 0x00, 0x00, 0x00]"
  by code_simp

end
